theory Spec2Isabelle
  imports Complex_Main "HOL-Library.Word" "HOL-Library.Sublist"
begin

section \<open>JavaScript strings\<close>

text \<open>
  A JavaScript string is a sequence of 16-bit code units, and a regular expression
  without the \<open>u\<close> flag matches code unit by code unit. Literals of the source are
  ASCII and are written through \<open>js\<close>.
\<close>

type_synonym code_unit = "16 word"
type_synonym jsstring = "code_unit list"

definition js :: "string \<Rightarrow> jsstring" where
  "js cs = map (\<lambda>c. of_nat (of_char c)) cs"

text \<open>
  The class \<open>\s\<close> of ECMAScript: WhiteSpace (TAB, VT, FF, ZWNBSP and the Unicode
  space separators) together with LineTerminator (LF, CR, LS, PS).
\<close>

definition is_space :: "code_unit \<Rightarrow> bool" where
  "is_space c \<longleftrightarrow>
     c = 0x09 \<or> c = 0x0A \<or> c = 0x0B \<or> c = 0x0C \<or> c = 0x0D \<or> c = 0x20 \<or> c = 0xA0 \<or>
     c = 0x1680 \<or> (0x2000 \<le> c \<and> c \<le> 0x200A) \<or> c = 0x2028 \<or> c = 0x2029 \<or>
     c = 0x202F \<or> c = 0x205F \<or> c = 0x3000 \<or> c = 0xFEFF"

section \<open>The fence-stripping replace of \<open>convertToMarkdown\<close>\<close>

text \<open>
  Line 86 of \<open>App.jsx\<close>:
  \<^verbatim>\<open>text.replace(/^```markdown\s*|\s*```$/g, "")\<close>.
  The pattern is matched by backtracking. A matcher takes the input that is left and
  returns what is left after the match, or \<open>None\<close>.
\<close>

definition fence_markdown :: jsstring where
  "fence_markdown = js ''```markdown''"

definition fence :: jsstring where
  "fence = js ''```''"

text \<open>A literal: every code unit of the pattern must be next in the input.\<close>

fun lit :: "jsstring \<Rightarrow> jsstring \<Rightarrow> jsstring option" where
  "lit [] s = Some s"
| "lit (p # ps) [] = None"
| "lit (p # ps) (c # cs) = (if p = c then lit ps cs else None)"

text \<open>
  The greedy \<open>\s*\<close> in front of the rest \<open>k\<close> of the pattern: take one more space
  while there is one, and give a space back when the rest does not match further on.
\<close>

fun space_star :: "(jsstring \<Rightarrow> jsstring option) \<Rightarrow> jsstring \<Rightarrow> jsstring option" where
  "space_star k [] = k []"
| "space_star k (c # cs) =
     (if is_space c
      then (case space_star k cs of Some r \<Rightarrow> Some r | None \<Rightarrow> k (c # cs))
      else k (c # cs))"

text \<open>\<open>$\<close> without the \<open>m\<close> flag: only the end of the input.\<close>

definition at_end :: "jsstring \<Rightarrow> jsstring option" where
  "at_end s = (if s = [] then Some [] else None)"

text \<open>
  The first alternative, \<open>^```markdown\s*\<close>; \<open>at0\<close> says whether the match starts at
  index 0, the only place where \<open>^\<close> holds without the \<open>m\<close> flag.
\<close>

definition alt_leading :: "bool \<Rightarrow> jsstring \<Rightarrow> jsstring option" where
  "alt_leading at0 s =
     (if at0
      then (case lit fence_markdown s of None \<Rightarrow> None | Some r \<Rightarrow> space_star Some r)
      else None)"

text \<open>The second alternative, \<open>\s*```$\<close>.\<close>

definition alt_trailing :: "jsstring \<Rightarrow> jsstring option" where
  "alt_trailing s =
     space_star (\<lambda>r. case lit fence r of None \<Rightarrow> None | Some r' \<Rightarrow> at_end r') s"

text \<open>The alternation tries the left alternative first.\<close>

definition match_here :: "bool \<Rightarrow> jsstring \<Rightarrow> jsstring option" where
  "match_here at0 s =
     (case alt_leading at0 s of Some r \<Rightarrow> Some r | None \<Rightarrow> alt_trailing s)"

text \<open>
  \<open>replace\<close> with the \<open>g\<close> flag and the replacement \<open>""\<close>: the matcher is tried at each
  index from left to right; a match is dropped and the search goes on behind it; a code
  unit at which nothing matches is kept. After an empty match the search moves on by one
  code unit, as \<open>AdvanceStringIndex\<close> does.
\<close>

function replace_all :: "bool \<Rightarrow> jsstring \<Rightarrow> jsstring" where
  "replace_all at0 s =
     (case match_here at0 s of
        Some r \<Rightarrow>
          (if length r < length s then replace_all False r
           else (case s of [] \<Rightarrow> [] | c # cs \<Rightarrow> c # replace_all False cs))
      | None \<Rightarrow> (case s of [] \<Rightarrow> [] | c # cs \<Rightarrow> c # replace_all False cs))"
  by pat_completeness auto
termination
  by (relation "measure (\<lambda>(at0, s). length s)") auto

declare replace_all.simps [simp del]

definition strip_fences :: "jsstring \<Rightarrow> jsstring" where
  "strip_fences text = replace_all True text"

section \<open>Values of a parsed response\<close>

text \<open>
  \<open>await response.json()\<close> yields any JSON value. A number is an IEEE double: a finite
  rational or, for a literal that overflows, an infinity. An object is the list of its
  own members, read with \<open>map_of\<close>.
\<close>

datatype jsnum = Finite rat | PosInfinity | NegInfinity

datatype json =
    JNull
  | JBool bool
  | JNum jsnum
  | JStr jsstring
  | JArr "json list"
  | JObj "(jsstring \<times> json) list"

text \<open>A JavaScript value read in the handler is a JSON value or \<open>undefined\<close> (\<open>None\<close>).\<close>

type_synonym jsval = "json option"

type_synonym message = jsstring

text \<open>The TypeErrors the handler can raise, with the property that was being read.\<close>

datatype fault = ReadOfNull jsstring | ReadOfUndefined jsstring | NotAFunction jsstring

datatype outcome = Rejected message | Resolved json

record request =
  req_url :: jsstring
  req_prompt :: jsstring

text \<open>
  What the handler takes from outside: the credential read at line 21, the outcome of
  \<open>await fetch(...)\<close> followed by \<open>await response.json()\<close> (a rejection with the
  message of the error, or the parsed body), the engine's wording of a TypeError, and the
  engine's comparison \<open>v > 0\<close> for a string, an array or an object \<open>v\<close> (ToPrimitive
  and StringToNumber, which may raise).
\<close>

record env =
  api_key :: jsstring
  fetch :: "request \<Rightarrow> outcome"
  type_error_message :: "fault \<Rightarrow> message"
  coerce_gt_zero :: "json \<Rightarrow> message + bool"

fun truthy :: "jsval \<Rightarrow> bool" where
  "truthy None = False"
| "truthy (Some JNull) = False"
| "truthy (Some (JBool b)) = b"
| "truthy (Some (JNum n)) = (n \<noteq> Finite 0)"
| "truthy (Some (JStr s)) = (s \<noteq> [])"
| "truthy (Some (JArr xs)) = True"
| "truthy (Some (JObj ps)) = True"

fun positive :: "jsnum \<Rightarrow> bool" where
  "positive (Finite q) = (0 < q)"
| "positive PosInfinity = True"
| "positive NegInfinity = False"

text \<open>
  The properties the handler reads are \<open>candidates\<close>, \<open>length\<close>, \<open>0\<close>, \<open>content\<close>,
  \<open>parts\<close> and \<open>text\<close>. None of them is inherited from a prototype, so a read finds an
  own property or \<open>undefined\<close>.
\<close>

fun get_prop :: "json \<Rightarrow> jsstring \<Rightarrow> jsval" where
  "get_prop (JObj ps) k = map_of ps k"
| "get_prop (JArr xs) k =
     (if k = js ''length'' then Some (JNum (Finite (of_nat (length xs))))
      else if k = js ''0'' then (case xs of [] \<Rightarrow> None | x # _ \<Rightarrow> Some x)
      else None)"
| "get_prop (JStr s) k =
     (if k = js ''length'' then Some (JNum (Finite (of_nat (length s))))
      else if k = js ''0'' then (case s of [] \<Rightarrow> None | c # _ \<Rightarrow> Some (JStr [c]))
      else None)"
| "get_prop v k = None"

text \<open>\<open>v.k\<close> and \<open>v[0]\<close>: a read from \<open>undefined\<close> or \<open>null\<close> raises a TypeError.\<close>

fun read :: "env \<Rightarrow> jsval \<Rightarrow> jsstring \<Rightarrow> message + jsval" where
  "read e None k = Inl (type_error_message e (ReadOfUndefined k))"
| "read e (Some JNull) k = Inl (type_error_message e (ReadOfNull k))"
| "read e (Some v) k = Inr (get_prop v k)"

text \<open>\<open>v > 0\<close>.\<close>

fun gt_zero :: "env \<Rightarrow> jsval \<Rightarrow> message + bool" where
  "gt_zero e None = Inr False"
| "gt_zero e (Some JNull) = Inr False"
| "gt_zero e (Some (JBool b)) = Inr b"
| "gt_zero e (Some (JNum n)) = Inr (positive n)"
| "gt_zero e (Some v) = coerce_gt_zero e v"

text \<open>Sequencing of steps that may raise.\<close>

definition and_then :: "message + 'a \<Rightarrow> ('a \<Rightarrow> message + 'b) \<Rightarrow> message + 'b" where
  "and_then m f = (case m of Inl x \<Rightarrow> Inl x | Inr a \<Rightarrow> f a)"

text \<open>
  The condition of lines 76 to 82. \<open>&&\<close> stops at the first falsy operand; the reads are
  pure, so each operand reads again what the operand before it has read.
\<close>

definition has_valid_content :: "env \<Rightarrow> json \<Rightarrow> message + bool" where
  "has_valid_content e result =
     and_then (read e (Some result) (js ''candidates'')) (\<lambda>cands.
       if \<not> truthy cands then Inr False else
     and_then (read e cands (js ''length'')) (\<lambda>n.
     and_then (gt_zero e n) (\<lambda>b.
       if \<not> b then Inr False else
     and_then (read e cands (js ''0'')) (\<lambda>c0.
     and_then (read e c0 (js ''content'')) (\<lambda>ct.
       if \<not> truthy ct then Inr False else
     and_then (read e ct (js ''parts'')) (\<lambda>ps.
       if \<not> truthy ps then Inr False else
     and_then (read e ps (js ''length'')) (\<lambda>m.
     gt_zero e m)))))))"

text \<open>Line 83: \<open>result.candidates[0].content.parts[0].text\<close>.\<close>

definition first_part_text :: "env \<Rightarrow> json \<Rightarrow> message + jsval" where
  "first_part_text e result =
     and_then (read e (Some result) (js ''candidates'')) (\<lambda>cands.
     and_then (read e cands (js ''0'')) (\<lambda>c0.
     and_then (read e c0 (js ''content'')) (\<lambda>ct.
     and_then (read e ct (js ''parts'')) (\<lambda>ps.
     and_then (read e ps (js ''0'')) (\<lambda>p0.
     read e p0 (js ''text''))))))"

text \<open>
  Line 86: \<open>text.replace(...)\<close>. Only a string has a callable \<open>replace\<close>; a JSON object
  with a member of that name holds a value that is not a function.
\<close>

fun call_replace :: "env \<Rightarrow> jsval \<Rightarrow> message + jsstring" where
  "call_replace e None = Inl (type_error_message e (ReadOfUndefined (js ''replace'')))"
| "call_replace e (Some JNull) = Inl (type_error_message e (ReadOfNull (js ''replace'')))"
| "call_replace e (Some (JStr s)) = Inr (strip_fences s)"
| "call_replace e (Some v) = Inl (type_error_message e (NotAFunction (js ''replace'')))"

section \<open>The state of the component and its handlers\<close>

text \<open>The six \<open>useState\<close> cells of \<open>App\<close> (lines 9 to 19).\<close>

record state =
  inputText :: jsstring
  markdownOutput :: jsstring
  isLoading :: bool
  error :: jsstring
  copyButtonText :: jsstring
  showPreview :: bool

definition copy_label :: jsstring where
  "copy_label = js ''Copy Markdown''"

definition initial_state :: state where
  "initial_state =
     \<lparr>inputText = [], markdownOutput = [], isLoading = False, error = [],
      copyButtonText = copy_label, showPreview = False\<rparr>"

text \<open>What a handler does besides setting state, in the order it does it.\<close>

datatype effect =
    Fetch request
  | ConsoleLog jsval
  | ConsoleErrorResponse json
  | ConsoleErrorException message
  | CreateTextarea jsstring
  | AppendChild
  | SelectText
  | ExecCommandCopy
  | ConsoleErrorCopy
  | SetTimeout nat
  | RemoveChild

subsection \<open>\<open>convertToMarkdown\<close> (lines 30 to 100)\<close>

text \<open>The template literal of lines 40 to 47.\<close>

definition build_prompt :: "jsstring \<Rightarrow> jsstring" where
  \<open>build_prompt input =
     js ''Convert the following text into well-formatted Markdown syntax suitable for a README.md file.\<newline>      \<newline>      Ensure the output includes appropriate headings, lists, code blocks, bold/italic text, and links where applicable.\<newline>      \<newline>      Text to convert:\<newline>      "''
     @ input @
     js ''"\<newline>      \<newline>      Please provide *only* the Markdown output.''\<close>

text \<open>
  Lines 50 to 70: one POST to the endpoint of line 63, with the credential in the query
  and a body that holds the prompt as the only user message.
\<close>

definition build_request :: "env \<Rightarrow> jsstring \<Rightarrow> request" where
  "build_request e input =
     \<lparr>req_url =
        js ''https://generativelanguage.googleapis.com/v1beta/models/gemini-2.0-flash:generateContent?key=''
        @ api_key e,
      req_prompt = build_prompt input\<rparr>"

definition failed_message :: jsstring where
  "failed_message = js ''Failed to generate Markdown. Please try again.''"

definition error_prefix :: jsstring where
  "error_prefix = js ''An error occurred: ''"

text \<open>
  Lines 75 to 92, once the body is parsed: \<open>Inr (Some cleaned)\<close> when the text was
  cleaned, \<open>Inr None\<close> in the \<open>else\<close> branch, \<open>Inl m\<close> when a TypeError with message
  \<open>m\<close> was raised on the way.
\<close>

definition handle_result :: "env \<Rightarrow> json \<Rightarrow> (message + jsstring option) \<times> effect list" where
  "handle_result e result =
     (case has_valid_content e result of
        Inl m \<Rightarrow> (Inl m, [])
      | Inr False \<Rightarrow> (Inr None, [ConsoleErrorResponse result])
      | Inr True \<Rightarrow>
          (case first_part_text e result of
             Inl m \<Rightarrow> (Inl m, [])
           | Inr text \<Rightarrow>
               (case call_replace e text of
                  Inl m \<Rightarrow> (Inl m, [ConsoleLog text])
                | Inr cleaned \<Rightarrow> (Inr (Some cleaned), [ConsoleLog text]))))"

text \<open>The body of \<open>try\<close> (lines 38 to 92).\<close>

definition try_block :: "env \<Rightarrow> jsstring \<Rightarrow> (message + jsstring option) \<times> effect list" where
  "try_block e input =
     (let req = build_request e input in
      case fetch e req of
        Rejected m \<Rightarrow> (Inl m, [Fetch req])
      | Resolved result \<Rightarrow>
          (case handle_result e result of (res, fx) \<Rightarrow> (res, Fetch req # fx)))"

text \<open>
  The handler, run until the request is settled: the resets of lines 32 to 36, the
  \<open>try\<close> block with its \<open>catch\<close>, and the \<open>finally\<close> of line 98.
\<close>

definition convertToMarkdown :: "env \<Rightarrow> state \<Rightarrow> state \<times> effect list" where
  "convertToMarkdown e s =
     (let s1 = s\<lparr>markdownOutput := [], error := [], copyButtonText := copy_label,
                 isLoading := True, showPreview := False\<rparr>;
          (s2, fx) =
            (case try_block e (inputText s) of
               (Inr (Some cleaned), fx) \<Rightarrow> (s1\<lparr>markdownOutput := cleaned\<rparr>, fx)
             | (Inr None, fx) \<Rightarrow> (s1\<lparr>error := failed_message\<rparr>, fx)
             | (Inl m, fx) \<Rightarrow> (s1\<lparr>error := error_prefix @ m\<rparr>, fx @ [ConsoleErrorException m]))
      in (s2\<lparr>isLoading := False\<rparr>, fx))"

subsection \<open>\<open>copyToClipboard\<close> (lines 103 to 120)\<close>

text \<open>\<open>document.execCommand("copy")\<close> returns a boolean, which the handler drops, or raises.\<close>

datatype exec_result = Returned bool | Threw

definition copy_failed_message :: jsstring where
  "copy_failed_message = js ''Failed to copy text to clipboard.''"

definition copyToClipboard :: "exec_result \<Rightarrow> state \<Rightarrow> state \<times> effect list" where
  "copyToClipboard exec s =
     (if markdownOutput s \<noteq> []
      then (case exec of
              Returned b \<Rightarrow>
                (s\<lparr>copyButtonText := js ''Copied!''\<rparr>,
                 [CreateTextarea (markdownOutput s), AppendChild, SelectText, ExecCommandCopy,
                  SetTimeout 2000, RemoveChild])
            | Threw \<Rightarrow>
                (s\<lparr>error := copy_failed_message\<rparr>,
                 [CreateTextarea (markdownOutput s), AppendChild, SelectText, ExecCommandCopy,
                  ConsoleErrorCopy, RemoveChild]))
      else (s, []))"

text \<open>The callback of the timer of line 113.\<close>

definition copy_label_timeout :: "state \<Rightarrow> state" where
  "copy_label_timeout s = s\<lparr>copyButtonText := copy_label\<rparr>"

subsection \<open>The handlers in the markup\<close>

text \<open>Clear All (lines 193 to 199).\<close>

definition clear_all :: "state \<Rightarrow> state" where
  "clear_all s =
     s\<lparr>inputText := [], markdownOutput := [], error := [], copyButtonText := copy_label,
       showPreview := False\<rparr>"

text \<open>The preview toggle (line 226).\<close>

definition toggle_preview :: "state \<Rightarrow> state" where
  "toggle_preview s = s\<lparr>showPreview := \<not> showPreview s\<rparr>"

section \<open>The specification's reading of the handlers\<close>

text \<open>
  The definitions of this section follow the words of the specification, not the code;
  the theorems compare them with the code.
\<close>

subsection \<open>Fence stripping\<close>

text \<open>
  ``Strip a leading \<open>```markdown\<close> fence marker and any trailing \<open>```\<close> fence marker (a
  single optional occurrence at each end, whitespace-tolerant)'': the leading marker goes
  with the whitespace behind it, the trailing marker with the whitespace in front of it,
  and nothing else is touched.
\<close>

definition rtrim :: "jsstring \<Rightarrow> jsstring" where
  "rtrim t = rev (dropWhile is_space (rev t))"

definition trim :: "jsstring \<Rightarrow> jsstring" where
  "trim t = rtrim (dropWhile is_space t)"

definition spec_strip_leading :: "jsstring \<Rightarrow> jsstring" where
  "spec_strip_leading t =
     (if prefix fence_markdown t then dropWhile is_space (drop (length fence_markdown) t)
      else t)"

definition spec_strip_trailing :: "jsstring \<Rightarrow> jsstring" where
  "spec_strip_trailing t =
     (if suffix fence t then rtrim (take (length t - length fence) t) else t)"

definition spec_strip :: "jsstring \<Rightarrow> jsstring" where
  "spec_strip t = spec_strip_trailing (spec_strip_leading t)"

subsection \<open>The shape of a response\<close>

text \<open>A member of a JSON object; no other JSON value has members.\<close>

definition member :: "json \<Rightarrow> jsstring \<Rightarrow> json option" where
  "member v k = (case v of JObj ps \<Rightarrow> map_of ps k | _ \<Rightarrow> None)"

text \<open>
  The expected shape
  \<^verbatim>\<open>{ candidates: [ { content: { parts: [ { text: <string> } ] } } ] }\<close>,
  of which only the text of the first part of the first candidate is consumed.
\<close>

definition spec_response_text :: "json \<Rightarrow> jsstring option" where
  "spec_response_text r =
     (case member r (js ''candidates'') of
        Some (JArr (c # cs)) \<Rightarrow>
          (case member c (js ''content'') of
             Some ct \<Rightarrow>
               (case member ct (js ''parts'') of
                  Some (JArr (p # ps)) \<Rightarrow>
                    (case member p (js ''text'') of Some (JStr t) \<Rightarrow> Some t | _ \<Rightarrow> None)
                | _ \<Rightarrow> None)
           | None \<Rightarrow> None)
      | _ \<Rightarrow> None)"

text \<open>
  ``A response missing the expected shape (no candidates, or empty parts)'': the member
  \<open>candidates\<close> is not an array, or it is the empty array, or the first candidate has no
  content, or the content has no parts array with a first part.
\<close>

definition spec_missing_shape :: "json \<Rightarrow> bool" where
  "spec_missing_shape r =
     (case member r (js ''candidates'') of
        Some (JArr []) \<Rightarrow> True
      | Some (JArr (c # cs)) \<Rightarrow>
          (case member c (js ''content'') of
             None \<Rightarrow> True
           | Some ct \<Rightarrow>
               (case member ct (js ''parts'') of Some (JArr (p # ps)) \<Rightarrow> False | _ \<Rightarrow> True))
      | _ \<Rightarrow> True)"

text \<open>
  The responses on which the condition of lines 76 to 82 reads only from values it has
  tested: the body is an object; \<open>candidates\<close> is absent, \<open>null\<close> or an array whose first
  element, if there is one, is an object; the \<open>content\<close> of that element is absent,
  \<open>null\<close> or an object; and the \<open>parts\<close> of that content are absent, \<open>null\<close> or an
  array.
\<close>

definition typed_where_read :: "json \<Rightarrow> bool" where
  "typed_where_read r =
     (case r of
        JObj rs \<Rightarrow>
          (case map_of rs (js ''candidates'') of
             None \<Rightarrow> True
           | Some JNull \<Rightarrow> True
           | Some (JArr []) \<Rightarrow> True
           | Some (JArr (JObj cs # cands)) \<Rightarrow>
               (case map_of cs (js ''content'') of
                  None \<Rightarrow> True
                | Some JNull \<Rightarrow> True
                | Some (JObj ps) \<Rightarrow>
                    (case map_of ps (js ''parts'') of
                       None \<Rightarrow> True
                     | Some JNull \<Rightarrow> True
                     | Some (JArr xs) \<Rightarrow> True
                     | _ \<Rightarrow> False)
                | _ \<Rightarrow> False)
           | _ \<Rightarrow> False)
      | _ \<Rightarrow> False)"

subsection \<open>An environment for the examples\<close>

text \<open>V8's wording of the three TypeErrors.\<close>

fun v8_type_error :: "fault \<Rightarrow> message" where
  "v8_type_error (ReadOfNull k) =
     js ''Cannot read properties of null (reading '' @ [0x27] @ k @ [0x27] @ js '')''"
| "v8_type_error (ReadOfUndefined k) =
     js ''Cannot read properties of undefined (reading '' @ [0x27] @ k @ [0x27] @ js '')''"
| "v8_type_error (NotAFunction k) = js ''text.'' @ k @ js '' is not a function''"

text \<open>
  A service that settles every request with the given outcome. The comparison of a
  string, an array or an object with \<open>0\<close> is taken as false, which the examples do not
  reach.
\<close>

definition sample_env :: "outcome \<Rightarrow> env" where
  "sample_env oc =
     \<lparr>api_key = js ''test-key'', fetch = (\<lambda>req. oc), type_error_message = v8_type_error,
      coerce_gt_zero = (\<lambda>v. Inr False)\<rparr>"

text \<open>A response of the service with one candidate, whose first part holds the text.\<close>

definition sample_response :: "jsstring \<Rightarrow> json" where
  "sample_response t =
     JObj [(js ''candidates'',
            JArr [JObj [(js ''content'',
                         JObj [(js ''parts'', JArr [JObj [(js ''text'', JStr t)]]),
                               (js ''role'', JStr (js ''model''))]),
                        (js ''finishReason'', JStr (js ''STOP''))]])]"

definition sample_state :: state where
  "sample_state =
     \<lparr>inputText = js ''Title and a list'', markdownOutput = js ''# Old'', isLoading = False,
      error = js ''old error'', copyButtonText = js ''Copied!'', showPreview = True\<rparr>"

section \<open>The replace against the specification's stripping\<close>

lemma fence_units: "fence = [96, 96, 96]"
  by (simp add: fence_def js_def)

lemma fence_markdown_units:
  "fence_markdown = [96, 96, 96, 109, 97, 114, 107, 100, 111, 119, 110]"
  by (simp add: fence_markdown_def js_def)

lemma backtick_not_space: "\<not> is_space 96"
  by (simp add: is_space_def)

lemma lit_prefix: "lit p s = (if prefix p s then Some (drop (length p) s) else None)"
  by (induction p s rule: lit.induct) auto

lemma space_star_accept: "space_star Some s = Some (dropWhile is_space s)"
  by (induction s) auto

lemma space_star_fence:
  "space_star (\<lambda>r. case lit fence r of None \<Rightarrow> None | Some r' \<Rightarrow> at_end r') s =
     (if dropWhile is_space s = fence then Some [] else None)"
proof (induction s)
  case Nil
  show ?case by (simp add: fence_units)
next
  case (Cons c cs)
  show ?case
  proof (cases "is_space c")
    case True
    then have "c # cs \<noteq> fence"
      using backtick_not_space by (auto simp: fence_units)
    then have "\<not> (prefix fence (c # cs) \<and> drop (length fence) (c # cs) = [])"
      by (metis append_Nil2 append_take_drop_id prefix_def append_eq_conv_conj)
    with True Cons show ?thesis
      by (auto simp: lit_prefix at_end_def)
  next
    case False
    have "(prefix fence (c # cs) \<and> drop (length fence) (c # cs) = []) \<longleftrightarrow> c # cs = fence"
      by (metis append_Nil2 append_take_drop_id prefix_def append_eq_conv_conj prefix_order.order_refl)
    with False show ?thesis
      by (auto simp: lit_prefix at_end_def)
  qed
qed

lemma alt_trailing_eq:
  "alt_trailing s = (if dropWhile is_space s = fence then Some [] else None)"
  unfolding alt_trailing_def by (rule space_star_fence)

lemma match_here_inner:
  "match_here False s = (if dropWhile is_space s = fence then Some [] else None)"
  by (simp add: match_here_def alt_leading_def alt_trailing_eq)

lemma match_here_start:
  "match_here True s =
     (if prefix fence_markdown s then Some (dropWhile is_space (drop (length fence_markdown) s))
      else match_here False s)"
  by (simp add: match_here_def alt_leading_def lit_prefix space_star_accept)

lemma rtrim_Cons:
  "\<not> (is_space c \<and> (\<forall>x\<in>set u. is_space x)) \<Longrightarrow> rtrim (c # u) = c # rtrim u"
  by (auto simp: rtrim_def dropWhile_append)

lemma rtrim_all_space: "\<forall>x\<in>set u. is_space x \<Longrightarrow> rtrim u = []"
  by (simp add: rtrim_def)

lemma dropWhile_fence_iff:
  "dropWhile is_space s = fence \<longleftrightarrow> (\<exists>w. s = w @ fence \<and> (\<forall>x\<in>set w. is_space x))"
proof
  assume h: "dropWhile is_space s = fence"
  have "s = takeWhile is_space s @ dropWhile is_space s" by simp
  with h have "s = takeWhile is_space s @ fence" by simp
  moreover have "\<forall>x\<in>set (takeWhile is_space s). is_space x"
    by (auto dest: set_takeWhileD)
  ultimately show "\<exists>w. s = w @ fence \<and> (\<forall>x\<in>set w. is_space x)" by blast
next
  assume "\<exists>w. s = w @ fence \<and> (\<forall>x\<in>set w. is_space x)"
  then obtain w where "s = w @ fence" "\<forall>x\<in>set w. is_space x" by blast
  then show "dropWhile is_space s = fence"
    using backtick_not_space by (simp add: dropWhile_append fence_units)
qed

lemma spec_strip_trailing_append: "spec_strip_trailing (u @ fence) = rtrim u"
  by (simp add: spec_strip_trailing_def suffix_def)

lemma spec_strip_trailing_match:
  "dropWhile is_space s = fence \<Longrightarrow> spec_strip_trailing s = []"
  by (auto simp: dropWhile_fence_iff spec_strip_trailing_append rtrim_all_space)

lemma spec_strip_trailing_Cons:
  assumes "dropWhile is_space (c # cs) \<noteq> fence"
  shows "spec_strip_trailing (c # cs) = c # spec_strip_trailing cs"
proof (cases "suffix fence cs")
  case True
  then obtain u where u: "cs = u @ fence" by (auto simp: suffix_def)
  have "\<not> (is_space c \<and> (\<forall>x\<in>set u. is_space x))"
  proof
    assume "is_space c \<and> (\<forall>x\<in>set u. is_space x)"
    then have "\<forall>x\<in>set (c # u). is_space x" by simp
    moreover have "c # cs = (c # u) @ fence" using u by simp
    ultimately have "dropWhile is_space (c # cs) = fence"
      unfolding dropWhile_fence_iff by blast
    with assms show False by simp
  qed
  then have "rtrim (c # u) = c # rtrim u" by (rule rtrim_Cons)
  moreover have "spec_strip_trailing (c # cs) = rtrim (c # u)"
    using spec_strip_trailing_append [of "c # u"] u by simp
  ultimately show ?thesis using u by (simp add: spec_strip_trailing_append)
next
  case False
  have "c # cs \<noteq> fence"
    using assms backtick_not_space by (auto simp: fence_units)
  with False have "\<not> suffix fence (c # cs)"
    by (simp add: suffix_Cons)
  with False show ?thesis by (simp add: spec_strip_trailing_def)
qed

lemma replace_all_match:
  "match_here at0 s = Some r \<Longrightarrow> length r < length s \<Longrightarrow> replace_all at0 s = replace_all False r"
  by (subst replace_all.simps) simp

lemma replace_all_no_match:
  "match_here at0 (c # cs) = None \<Longrightarrow> replace_all at0 (c # cs) = c # replace_all False cs"
  by (subst replace_all.simps) simp

lemma replace_all_Nil: "replace_all at0 [] = []"
  by (subst replace_all.simps) (simp split: option.split)

lemma replace_all_inner: "replace_all False s = spec_strip_trailing s"
proof (induction s)
  case Nil
  show ?case
    by (simp add: replace_all_Nil spec_strip_trailing_def fence_units)
next
  case (Cons c cs)
  show ?case
  proof (cases "dropWhile is_space (c # cs) = fence")
    case True
    then have "match_here False (c # cs) = Some []"
      by (simp add: match_here_inner)
    then have "replace_all False (c # cs) = replace_all False []"
      by (rule replace_all_match) simp
    with True show ?thesis
      by (simp add: replace_all_Nil spec_strip_trailing_match)
  next
    case False
    then have "match_here False (c # cs) = None"
      by (simp add: match_here_inner)
    then have "replace_all False (c # cs) = c # replace_all False cs"
      by (rule replace_all_no_match)
    with Cons False show ?thesis by (simp add: spec_strip_trailing_Cons)
  qed
qed

lemma strip_fences_spec: "strip_fences t = spec_strip t"
proof (cases "prefix fence_markdown t")
  case True
  let ?r = "dropWhile is_space (drop (length fence_markdown) t)"
  have "length ?r \<le> length (drop (length fence_markdown) t)"
    by (rule length_dropWhile_le)
  moreover have "length fence_markdown \<le> length t"
    using True by (rule prefix_length_le)
  moreover have "0 < length fence_markdown"
    by (simp add: fence_markdown_units)
  ultimately have shorter: "length ?r < length t"
    by (simp del: length_greater_0_conv)
  have "match_here True t = Some ?r"
    using True by (simp add: match_here_start)
  then have "replace_all True t = replace_all False ?r"
    using shorter by (rule replace_all_match)
  with True show ?thesis
    by (simp add: strip_fences_def spec_strip_def spec_strip_leading_def replace_all_inner)
next
  case False
  then have same: "match_here True t = match_here False t"
    by (simp add: match_here_start)
  have "replace_all True t = replace_all False t"
    by (subst replace_all.simps, subst (2) replace_all.simps) (simp only: same)
  with False show ?thesis
    by (simp add: strip_fences_def spec_strip_def spec_strip_leading_def replace_all_inner)
qed

lemma spec_strip_wrapped: "spec_strip (fence_markdown @ c @ fence) = trim c"
proof -
  have "dropWhile is_space (c @ fence) = dropWhile is_space c @ fence"
    using backtick_not_space by (simp add: dropWhile_append fence_units)
  then show ?thesis
    by (simp add: spec_strip_def spec_strip_leading_def trim_def spec_strip_trailing_append)
qed

lemma spec_strip_leading_shorter:
  "prefix fence_markdown t \<Longrightarrow> length (spec_strip_leading t) < length t"
proof -
  assume p: "prefix fence_markdown t"
  let ?r = "dropWhile is_space (drop (length fence_markdown) t)"
  have "length ?r \<le> length (drop (length fence_markdown) t)"
    by (rule length_dropWhile_le)
  moreover have "length fence_markdown \<le> length t"
    using p by (rule prefix_length_le)
  moreover have "0 < length fence_markdown"
    by (simp add: fence_markdown_units)
  ultimately have "length ?r < length t"
    by (simp del: length_greater_0_conv)
  with p show ?thesis by (simp add: spec_strip_leading_def)
qed

lemma rtrim_length: "length (rtrim u) \<le> length u"
  unfolding rtrim_def using length_dropWhile_le [of is_space "rev u"] by simp

lemma spec_strip_trailing_length: "length (spec_strip_trailing t) \<le> length t"
proof -
  have "length (rtrim (take (length t - length fence) t)) \<le> length (take (length t - length fence) t)"
    by (rule rtrim_length)
  also have "\<dots> \<le> length t" by simp
  finally show ?thesis by (simp add: spec_strip_trailing_def)
qed

lemma spec_strip_trailing_shorter:
  "suffix fence t \<Longrightarrow> length (spec_strip_trailing t) < length t"
proof -
  assume "suffix fence t"
  then obtain u where u: "t = u @ fence" by (auto simp: suffix_def)
  have "length (rtrim u) \<le> length u" by (rule rtrim_length)
  moreover have "length t = length u + 3" using u by (simp add: fence_units)
  moreover have "spec_strip_trailing t = rtrim u" using u by (simp add: spec_strip_trailing_append)
  ultimately show ?thesis by simp
qed

lemma spec_strip_fixed:
  "spec_strip t = t \<longleftrightarrow> \<not> prefix fence_markdown t \<and> \<not> suffix fence t"
proof (cases "prefix fence_markdown t")
  case True
  have "length (spec_strip t) \<le> length (spec_strip_leading t)"
    unfolding spec_strip_def by (rule spec_strip_trailing_length)
  also have "\<dots> < length t" using True by (rule spec_strip_leading_shorter)
  finally have "spec_strip t \<noteq> t" by auto
  with True show ?thesis by simp
next
  case False
  then have eq: "spec_strip t = spec_strip_trailing t"
    by (simp add: spec_strip_def spec_strip_leading_def)
  show ?thesis
  proof (cases "suffix fence t")
    case True
    then have "length (spec_strip_trailing t) < length t" by (rule spec_strip_trailing_shorter)
    then have "spec_strip_trailing t \<noteq> t" by auto
    with True eq show ?thesis by simp
  next
    case nosuf: False
    with False eq show ?thesis by (simp add: spec_strip_trailing_def)
  qed
qed


section \<open>Reading a response\<close>

lemma key_simps:
  "js ''candidates'' \<noteq> js ''length''" "js ''candidates'' \<noteq> js ''0''"
  "js ''content'' \<noteq> js ''length''" "js ''content'' \<noteq> js ''0''"
  "js ''parts'' \<noteq> js ''length''" "js ''parts'' \<noteq> js ''0''"
  "js ''text'' \<noteq> js ''length''" "js ''text'' \<noteq> js ''0''"
  "js ''0'' \<noteq> js ''length''"
  by (simp_all add: js_def)

lemma handle_result_text:
  assumes "spec_response_text r = Some t"
  shows "handle_result e r = (Inr (Some (strip_fences t)), [ConsoleLog (Some (JStr t))])"
proof -
  from assms obtain rs c cs qs cts p ps ts where
    r: "r = JObj rs" "map_of rs (js ''candidates'') = Some (JArr (c # cs))" and
    c: "c = JObj qs" "map_of qs (js ''content'') = Some (JObj cts)" and
    ct: "map_of cts (js ''parts'') = Some (JArr (p # ps))" and
    p: "p = JObj ts" "map_of ts (js ''text'') = Some (JStr t)"
    by (auto simp: spec_response_text_def member_def split: json.splits option.splits list.splits)
  have valid: "has_valid_content e r = Inr True"
    using r c ct by (simp add: has_valid_content_def and_then_def key_simps)
  have part: "first_part_text e r = Inr (Some (JStr t))"
    using r c ct p by (simp add: first_part_text_def and_then_def key_simps)
  show ?thesis
    by (simp add: handle_result_def valid part)
qed

lemma has_valid_content_missing:
  assumes missing: "spec_missing_shape r" and typed: "typed_where_read r"
  shows "has_valid_content e r = Inr False"
proof -
  from typed obtain rs where r: "r = JObj rs"
    by (cases r) (simp_all add: typed_where_read_def)
  show ?thesis
  proof (cases "map_of rs (js ''candidates'')")
    case None
    with r show ?thesis by (simp add: has_valid_content_def and_then_def)
  next
    case (Some cands)
    note cands = Some
    show ?thesis
    proof (cases cands)
      case JNull
      with r cands show ?thesis by (simp add: has_valid_content_def and_then_def)
    next
      case (JArr xs)
      show ?thesis
      proof (cases xs)
        case Nil
        with r cands JArr show ?thesis
          by (simp add: has_valid_content_def and_then_def key_simps)
      next
        case (Cons c cs)
        with typed r cands JArr obtain ms where c: "c = JObj ms"
          by (cases c) (simp_all add: typed_where_read_def)
        show ?thesis
        proof (cases "map_of ms (js ''content'')")
          case None
          with r cands JArr Cons c show ?thesis
            by (simp add: has_valid_content_def and_then_def key_simps)
        next
          case (Some ct)
          note ct = Some
          show ?thesis
          proof (cases ct)
            case JNull
            with r cands JArr Cons c ct show ?thesis
              by (simp add: has_valid_content_def and_then_def key_simps)
          next
            case (JObj ps)
            show ?thesis
            proof (cases "map_of ps (js ''parts'')")
              case None
              with r cands JArr Cons c ct JObj show ?thesis
                by (simp add: has_valid_content_def and_then_def key_simps)
            next
              case (Some parts)
              show ?thesis
              proof (cases parts)
                case JNull
                with r cands JArr Cons c ct JObj Some show ?thesis
                  by (simp add: has_valid_content_def and_then_def key_simps)
              next
                case (JArr ys)
                with missing r cands \<open>cands = JArr xs\<close> Cons c ct JObj Some have "ys = []"
                  by (cases ys) (simp_all add: spec_missing_shape_def member_def)
                with r cands \<open>cands = JArr xs\<close> Cons c ct JObj Some JArr show ?thesis
                  by (simp add: has_valid_content_def and_then_def key_simps)
              qed (use typed r cands \<open>cands = JArr xs\<close> Cons c ct JObj Some in
                    \<open>simp_all add: typed_where_read_def\<close>)
            qed
          qed (use typed r cands JArr Cons c ct in \<open>simp_all add: typed_where_read_def\<close>)
        qed
      qed
    qed (use typed r cands in \<open>simp_all add: typed_where_read_def\<close>)
  qed
qed

section \<open>The handlers on the whole state\<close>

lemma try_block_success:
  assumes "fetch e (build_request e i) = Resolved r" and "spec_response_text r = Some t"
  shows "try_block e i =
           (Inr (Some (strip_fences t)), [Fetch (build_request e i), ConsoleLog (Some (JStr t))])"
  using assms by (simp add: try_block_def handle_result_text)

lemma convert_success:
  assumes "fetch e (build_request e (inputText s)) = Resolved r"
    and "spec_response_text r = Some t"
  shows "convertToMarkdown e s =
           (s\<lparr>markdownOutput := strip_fences t, error := [], copyButtonText := copy_label,
              isLoading := False, showPreview := False\<rparr>,
            [Fetch (build_request e (inputText s)), ConsoleLog (Some (JStr t))])"
  using try_block_success [OF assms] by (simp add: convertToMarkdown_def)

lemma convert_isLoading: "isLoading (fst (convertToMarkdown e s)) = False"
  by (simp add: convertToMarkdown_def Let_def split: prod.split sum.split option.split)

lemma convert_raise:
  assumes "fst (try_block e (inputText s)) = Inl m"
  shows "fst (convertToMarkdown e s) =
           s\<lparr>markdownOutput := [], error := error_prefix @ m, copyButtonText := copy_label,
             isLoading := False, showPreview := False\<rparr>"
  using assms by (cases "try_block e (inputText s)") (simp add: convertToMarkdown_def)

lemma try_block_rejected:
  "fetch e (build_request e i) = Rejected m \<Longrightarrow> try_block e i = (Inl m, [Fetch (build_request e i)])"
  by (simp add: try_block_def)

lemma convert_missing:
  assumes "fetch e (build_request e (inputText s)) = Resolved r"
    and "spec_missing_shape r" and "typed_where_read r"
  shows "convertToMarkdown e s =
           (s\<lparr>markdownOutput := [], error := failed_message, copyButtonText := copy_label,
              isLoading := False, showPreview := False\<rparr>,
            [Fetch (build_request e (inputText s)), ConsoleErrorResponse r])"
  using assms(1) has_valid_content_missing [OF assms(2-3), of e]
  by (simp add: convertToMarkdown_def try_block_def handle_result_def)

lemma fetch_sample: "fetch (sample_env oc) req = oc"
  by (simp add: sample_env_def)

lemma text_sample: "spec_response_text (sample_response t) = Some t"
  by (simp add: spec_response_text_def sample_response_def member_def js_def)

section \<open>Examples at the edges of the expected input\<close>

text \<open>
  A first candidate that is \<open>null\<close> raises when \<open>content\<close> is read from it, and the
  \<open>catch\<close> branch reports it.
\<close>

lemma null_candidate_raises:
  "spec_missing_shape (JObj [(js ''candidates'', JArr [JNull])]) \<and>
   fst (convertToMarkdown (sample_env (Resolved (JObj [(js ''candidates'', JArr [JNull])])))
          sample_state) =
     sample_state\<lparr>markdownOutput := [],
       error := error_prefix @ v8_type_error (ReadOfNull (js ''content'')),
       copyButtonText := copy_label, isLoading := False, showPreview := False\<rparr>"
  by (simp add: spec_missing_shape_def member_def convertToMarkdown_def try_block_def
      handle_result_def has_valid_content_def and_then_def fetch_sample sample_env_def key_simps)

text \<open>
  An object with the members \<open>length\<close> and \<open>0\<close> in the place of the candidates array
  passes the condition of lines 76 to 82, and its text is stored.
\<close>

lemma array_like_candidates_accepted:
  "spec_missing_shape
     (JObj [(js ''candidates'',
        JObj [(js ''length'', JNum (Finite 1)),
              (js ''0'', JObj [(js ''content'',
                 JObj [(js ''parts'', JArr [JObj [(js ''text'', JStr (js ''# Title''))]])])])])]) \<and>
   fst (convertToMarkdown (sample_env (Resolved
     (JObj [(js ''candidates'',
        JObj [(js ''length'', JNum (Finite 1)),
              (js ''0'', JObj [(js ''content'',
                 JObj [(js ''parts'', JArr [JObj [(js ''text'', JStr (js ''# Title''))]])])])])])))
          sample_state) =
     sample_state\<lparr>markdownOutput := js ''# Title'', error := [],
       copyButtonText := copy_label, isLoading := False, showPreview := False\<rparr>"
proof -
  have "strip_fences (js ''# Title'') = js ''# Title''" by code_simp
  then show ?thesis
    by (simp add: spec_missing_shape_def member_def convertToMarkdown_def try_block_def
      handle_result_def has_valid_content_def first_part_text_def and_then_def fetch_sample
      key_simps)
qed

text \<open>
  The members that the condition tests before it reads from them may be \<open>null\<close>: the
  fixed message is set.
\<close>

lemma null_members_get_fixed_message:
  "error (fst (convertToMarkdown
      (sample_env (Resolved (JObj [(js ''candidates'', JNull)]))) sample_state)) = failed_message \<and>
   error (fst (convertToMarkdown
      (sample_env (Resolved (JObj [(js ''candidates'', JArr [JObj [(js ''content'', JNull)]])])))
      sample_state)) = failed_message \<and>
   error (fst (convertToMarkdown
      (sample_env (Resolved (JObj [(js ''candidates'',
         JArr [JObj [(js ''content'', JObj [(js ''parts'', JNull)])]])])))
      sample_state)) = failed_message"
  by (simp add: convertToMarkdown_def try_block_def handle_result_def has_valid_content_def
      and_then_def fetch_sample key_simps)

text \<open>
  When \<open>execCommand\<close> raises, the \<open>catch\<close> of lines 114 to 117 sets the clipboard
  message and the label is not written.
\<close>

lemma copy_threw_sets_error:
  "markdownOutput s \<noteq> [] \<Longrightarrow>
   copyToClipboard Threw s =
     (s\<lparr>error := js ''Failed to copy text to clipboard.''\<rparr>,
      [CreateTextarea (markdownOutput s), AppendChild, SelectText, ExecCommandCopy,
       ConsoleErrorCopy, RemoveChild])"
  by (simp add: copyToClipboard_def copy_failed_message_def)

text \<open>
  Whitespace outside the markers is not skipped: a line feed behind the trailing marker
  keeps that marker in place, and a space in front of the leading marker keeps that one.
\<close>

lemma outer_whitespace_keeps_marker:
  "strip_fences (js ''```markdown\<newline>Hello\<newline>```\<newline>'') = js ''Hello\<newline>```\<newline>'' \<and>
   strip_fences (js '' ```markdown\<newline>Hello\<newline>```'') = js '' ```markdown\<newline>Hello''"
  by code_simp

section \<open>The properties of the specification\<close>

text \<open>
  C1. When the service answers with a response of the expected shape, the conversion
  stores as \<open>markdownOutput\<close> the text of the first part with one leading
  \<open>```markdown\<close> marker and one trailing \<open>```\<close> marker removed, each together with the
  whitespace next to it, and everything else kept verbatim. So a text that is a leading
  \<open>```markdown\<close> marker, a content \<open>c\<close> and a trailing \<open>```\<close> marker is stored as \<open>c\<close>
  without the whitespace at its two ends; and a text with neither marker at its ends is
  stored unchanged, whatever fences it has elsewhere (a leading bare \<open>```\<close>, fences in the
  middle).
\<close>

theorem convert_strips_fences:
  assumes "fetch e (build_request e (inputText s)) = Resolved r"
    and "spec_response_text r = Some t"
  shows "markdownOutput (fst (convertToMarkdown e s)) = spec_strip t \<and>
         (t = fence_markdown @ c @ fence \<longrightarrow>
            markdownOutput (fst (convertToMarkdown e s)) = trim c) \<and>
         (\<not> prefix fence_markdown t \<and> \<not> suffix fence t \<longrightarrow>
            markdownOutput (fst (convertToMarkdown e s)) = t)"
proof -
  have out: "markdownOutput (fst (convertToMarkdown e s)) = spec_strip t"
    by (simp add: convert_success [OF assms] strip_fences_spec)
  moreover have "spec_strip (fence_markdown @ c @ fence) = trim c"
    by (rule spec_strip_wrapped)
  moreover have "\<not> prefix fence_markdown t \<and> \<not> suffix fence t \<longrightarrow> spec_strip t = t"
    by (simp add: spec_strip_fixed)
  ultimately show ?thesis by simp
qed

theorem convert_strips_fences_witness:
  "markdownOutput (fst (convertToMarkdown
      (sample_env (Resolved (sample_response (js ''```markdown\<newline># Title\<newline>\<newline>- one\<newline>```''))))
      sample_state)) = js ''# Title\<newline>\<newline>- one'' \<and>
   markdownOutput (fst (convertToMarkdown
      (sample_env (Resolved (sample_response (js ''```\<newline>ls\<newline>``` lists files''))))
      sample_state)) = js ''```\<newline>ls\<newline>``` lists files''"
proof -
  have a: "js ''```markdown\<newline># Title\<newline>\<newline>- one\<newline>```'' =
           fence_markdown @ js ''\<newline># Title\<newline>\<newline>- one\<newline>'' @ fence"
    by (simp add: js_def fence_def fence_markdown_def)
  have b: "trim (js ''\<newline># Title\<newline>\<newline>- one\<newline>'') = js ''# Title\<newline>\<newline>- one''"
    by (simp add: trim_def rtrim_def js_def is_space_def)
  have c: "\<not> prefix fence_markdown (js ''```\<newline>ls\<newline>``` lists files'') \<and>
           \<not> suffix fence (js ''```\<newline>ls\<newline>``` lists files'')"
    by (simp add: js_def fence_units fence_markdown_units suffix_def [of "[96, 96, 96]"] append_eq_Cons_conv)
  note first = convert_strips_fences [OF fetch_sample text_sample,
        of "js ''```markdown\<newline># Title\<newline>\<newline>- one\<newline>```''" sample_state
           "js ''\<newline># Title\<newline>\<newline>- one\<newline>''"]
  note second = convert_strips_fences [OF fetch_sample text_sample,
        of "js ''```\<newline>ls\<newline>``` lists files''" sample_state "[]"]
  from first a have "markdownOutput (fst (convertToMarkdown
      (sample_env (Resolved (sample_response (js ''```markdown\<newline># Title\<newline>\<newline>- one\<newline>```''))))
      sample_state)) = trim (js ''\<newline># Title\<newline>\<newline>- one\<newline>'')"
    by blast
  moreover from second c have "markdownOutput (fst (convertToMarkdown
      (sample_env (Resolved (sample_response (js ''```\<newline>ls\<newline>``` lists files''))))
      sample_state)) = js ''```\<newline>ls\<newline>``` lists files''"
    by blast
  ultimately show ?thesis by (simp only: b)
qed

text \<open>
  C2. Whatever the input text, hence for every non-empty one, when the service answers
  with a response of the expected shape whose first part has the text
  \<open>```markdown\<close>, a line feed, \<open>Hello\<close>, a line feed and \<open>```\<close>, the
  \<open>markdownOutput\<close> stored by the conversion is exactly \<open>Hello\<close>.
\<close>

theorem convert_hello:
  assumes "fetch e (build_request e (inputText s)) = Resolved r"
    and "spec_response_text r = Some (js ''```markdown\<newline>Hello\<newline>```'')"
  shows "markdownOutput (fst (convertToMarkdown e s)) = js ''Hello''"
proof -
  have "spec_strip (js ''```markdown\<newline>Hello\<newline>```'') = js ''Hello''"
    by (simp add: spec_strip_def spec_strip_leading_def spec_strip_trailing_def rtrim_def
        fence_units fence_markdown_units js_def is_space_def suffix_def [of "[96, 96, 96]"]
        append_eq_Cons_conv)
  then show ?thesis
    by (simp add: convert_success [OF assms] strip_fences_spec)
qed

theorem convert_hello_witness:
  "inputText sample_state \<noteq> [] \<and>
   markdownOutput (fst (convertToMarkdown
      (sample_env (Resolved (sample_response (js ''```markdown\<newline>Hello\<newline>```'')))) sample_state))
     = js ''Hello''"
  using convert_hello [OF fetch_sample text_sample, of sample_state]
  by (simp add: sample_state_def js_def)




text \<open>
  C4. After a conversion whose request has settled, \<open>isLoading\<close> is false, whatever the
  service did: a response that is stored, a response of an unexpected structure, or an
  exception in the \<open>try\<close> block. The examples run the three outcomes.
\<close>

theorem convert_clears_isLoading:
  "isLoading (fst (convertToMarkdown e s)) = False"
  by (rule convert_isLoading)

theorem convert_clears_isLoading_witness:
  "fst (convertToMarkdown (sample_env (Resolved (sample_response (js ''# Title'')))) sample_state) =
     sample_state\<lparr>markdownOutput := js ''# Title'', error := [], copyButtonText := copy_label,
       isLoading := False, showPreview := False\<rparr> \<and>
   fst (convertToMarkdown (sample_env (Resolved (JObj [(js ''candidates'', JArr [])]))) sample_state) =
     sample_state\<lparr>markdownOutput := [], error := failed_message, copyButtonText := copy_label,
       isLoading := False, showPreview := False\<rparr> \<and>
   fst (convertToMarkdown (sample_env (Rejected (js ''Failed to fetch''))) sample_state) =
     sample_state\<lparr>markdownOutput := [], error := js ''An error occurred: Failed to fetch'',
       copyButtonText := copy_label, isLoading := False, showPreview := False\<rparr> \<and>
   isLoading (fst (convertToMarkdown (sample_env (Resolved (sample_response (js ''# Title'')))) sample_state)) = False \<and>
   isLoading (fst (convertToMarkdown (sample_env (Resolved (JObj [(js ''candidates'', JArr [])]))) sample_state)) = False \<and>
   isLoading (fst (convertToMarkdown (sample_env (Rejected (js ''Failed to fetch''))) sample_state)) = False"
proof -
  have "strip_fences (js ''# Title'') = js ''# Title''" by code_simp
  then have one: "fst (convertToMarkdown (sample_env (Resolved (sample_response (js ''# Title'')))) sample_state) =
     sample_state\<lparr>markdownOutput := js ''# Title'', error := [], copyButtonText := copy_label,
       isLoading := False, showPreview := False\<rparr>"
    by (simp add: convert_success [OF fetch_sample text_sample])
  have two: "fst (convertToMarkdown (sample_env (Resolved (JObj [(js ''candidates'', JArr [])]))) sample_state) =
     sample_state\<lparr>markdownOutput := [], error := failed_message, copyButtonText := copy_label,
       isLoading := False, showPreview := False\<rparr>"
    by (simp add: convertToMarkdown_def try_block_def handle_result_def has_valid_content_def
        and_then_def fetch_sample key_simps)
  have three: "fst (convertToMarkdown (sample_env (Rejected (js ''Failed to fetch''))) sample_state) =
     sample_state\<lparr>markdownOutput := [], error := js ''An error occurred: Failed to fetch'',
       copyButtonText := copy_label, isLoading := False, showPreview := False\<rparr>"
    by (simp add: convertToMarkdown_def try_block_def fetch_sample error_prefix_def js_def)
  show ?thesis
    using one two three
      convert_clears_isLoading [of "sample_env (Resolved (sample_response (js ''# Title'')))" sample_state]
      convert_clears_isLoading [of "sample_env (Resolved (JObj [(js ''candidates'', JArr [])]))" sample_state]
      convert_clears_isLoading [of "sample_env (Rejected (js ''Failed to fetch''))" sample_state]
    by blast
qed

text \<open>
  C5, at a response on which the code misses it. The body \<open>null\<close> is a response
  without a candidates array, so the fixed message is due. The condition of lines 76 to
  82 tests \<open>candidates\<close>, \<open>content\<close> and \<open>parts\<close> before it reads from them, but not the
  body itself (nor the first candidate): reading \<open>candidates\<close> from \<open>null\<close> raises a
  TypeError inside the \<open>try\<close> block, and \<open>error\<close> becomes \<open>An error occurred: \<close>
  followed by the engine's message, which is not the fixed message. On the responses
  where every read is from a tested value, \<open>convert_missing\<close> gives the fixed message.
\<close>

theorem null_response_not_fixed_message:
  assumes "fetch e (build_request e (inputText s)) = Resolved JNull"
  shows "spec_missing_shape JNull \<and>
         error (fst (convertToMarkdown e s)) =
           js ''An error occurred: '' @ type_error_message e (ReadOfNull (js ''candidates'')) \<and>
         error (fst (convertToMarkdown e s)) \<noteq> js ''Failed to generate Markdown. Please try again.'' \<and>
         markdownOutput (fst (convertToMarkdown e s)) = []"
proof -
  have "fst (try_block e (inputText s)) =
          Inl (type_error_message e (ReadOfNull (js ''candidates'')))"
    using assms by (simp add: try_block_def handle_result_def has_valid_content_def and_then_def)
  then have "fst (convertToMarkdown e s) =
      s\<lparr>markdownOutput := [],
        error := error_prefix @ type_error_message e (ReadOfNull (js ''candidates'')),
        copyButtonText := copy_label, isLoading := False, showPreview := False\<rparr>"
    by (rule convert_raise)
  moreover have "spec_missing_shape JNull"
    by (simp add: spec_missing_shape_def member_def)
  ultimately show ?thesis
    by (simp add: error_prefix_def js_def)
qed

theorem null_response_not_fixed_message_witness:
  "fetch (sample_env (Resolved JNull)) (build_request (sample_env (Resolved JNull))
      (inputText sample_state)) = Resolved JNull \<and>
   error (fst (convertToMarkdown (sample_env (Resolved JNull)) sample_state)) =
     js ''An error occurred: Cannot read properties of null (reading '' @ [0x27] @
     js ''candidates'' @ [0x27] @ js '')'' \<and>
   error (fst (convertToMarkdown (sample_env (Resolved JNull)) sample_state)) \<noteq>
     js ''Failed to generate Markdown. Please try again.''"
proof -
  have a: "fetch (sample_env (Resolved JNull)) (build_request (sample_env (Resolved JNull))
      (inputText sample_state)) = Resolved JNull"
    by (rule fetch_sample)
  have b: "type_error_message (sample_env (Resolved JNull)) (ReadOfNull (js ''candidates'')) =
      js ''Cannot read properties of null (reading '' @ [0x27] @ js ''candidates'' @ [0x27] @ js '')''"
    by (simp add: sample_env_def)
  note t = null_response_not_fixed_message [OF a]
  from t b have "error (fst (convertToMarkdown (sample_env (Resolved JNull)) sample_state)) =
     js ''An error occurred: '' @ js ''Cannot read properties of null (reading '' @ [0x27] @
     js ''candidates'' @ [0x27] @ js '')''"
    by simp
  then have "error (fst (convertToMarkdown (sample_env (Resolved JNull)) sample_state)) =
     js ''An error occurred: Cannot read properties of null (reading '' @ [0x27] @
     js ''candidates'' @ [0x27] @ js '')''"
    by (simp add: js_def)
  moreover from t have
    "error (fst (convertToMarkdown (sample_env (Resolved JNull)) sample_state)) \<noteq>
       js ''Failed to generate Markdown. Please try again.''"
    by blast
  ultimately show ?thesis using a by blast
qed

text \<open>
  C6. When the outbound call fails, that is \<open>fetch\<close> rejects or the body does not parse,
  with an error of message \<open>m\<close>, the conversion sets \<open>error\<close> to \<open>An error occurred: \<close>
  followed by \<open>m\<close>, so that \<open>error\<close> includes \<open>m\<close>, and \<open>markdownOutput\<close> is left empty.
\<close>

theorem convert_reports_exception:
  assumes "fetch e (build_request e (inputText s)) = Rejected m"
  shows "error (fst (convertToMarkdown e s)) = js ''An error occurred: '' @ m \<and>
         sublist m (error (fst (convertToMarkdown e s))) \<and>
         markdownOutput (fst (convertToMarkdown e s)) = []"
proof -
  have "fst (try_block e (inputText s)) = Inl m"
    using assms by (simp add: try_block_def)
  then have "fst (convertToMarkdown e s) =
      s\<lparr>markdownOutput := [], error := error_prefix @ m, copyButtonText := copy_label,
        isLoading := False, showPreview := False\<rparr>"
    by (rule convert_raise)
  moreover have "sublist m (error_prefix @ m @ [])"
    by (rule sublist_appendI)
  ultimately show ?thesis
    by (simp add: error_prefix_def)
qed

theorem convert_reports_exception_witness:
  "fetch (sample_env (Rejected (js ''Failed to fetch'')))
     (build_request (sample_env (Rejected (js ''Failed to fetch''))) (inputText sample_state)) =
     Rejected (js ''Failed to fetch'') \<and>
   error (fst (convertToMarkdown (sample_env (Rejected (js ''Failed to fetch''))) sample_state)) =
     js ''An error occurred: Failed to fetch'' \<and>
   sublist (js ''Failed to fetch'')
     (error (fst (convertToMarkdown (sample_env (Rejected (js ''Failed to fetch''))) sample_state))) \<and>
   markdownOutput (fst (convertToMarkdown (sample_env (Rejected (js ''Failed to fetch''))) sample_state)) = []"
proof -
  have a: "fetch (sample_env (Rejected (js ''Failed to fetch'')))
     (build_request (sample_env (Rejected (js ''Failed to fetch''))) (inputText sample_state)) =
     Rejected (js ''Failed to fetch'')"
    by (rule fetch_sample)
  note b = convert_reports_exception [OF a]
  have "js ''An error occurred: '' @ js ''Failed to fetch'' = js ''An error occurred: Failed to fetch''"
    by (simp add: js_def)
  with b have "error (fst (convertToMarkdown (sample_env (Rejected (js ''Failed to fetch''))) sample_state)) =
     js ''An error occurred: Failed to fetch''"
    by (simp only:)
  with a b show ?thesis by blast
qed

text \<open>
  C7. From every state, Clear All sets \<open>inputText\<close>, \<open>markdownOutput\<close> and \<open>error\<close> to
  the empty string, \<open>copyButtonText\<close> to the default label and \<open>showPreview\<close> to false,
  which are the values they have in the initial state. It leaves \<open>isLoading\<close> as it is.
\<close>

theorem clear_all_resets:
  "inputText (clear_all s) = [] \<and> markdownOutput (clear_all s) = [] \<and> error (clear_all s) = [] \<and>
   copyButtonText (clear_all s) = js ''Copy Markdown'' \<and> showPreview (clear_all s) = False \<and>
   inputText (clear_all s) = inputText initial_state \<and>
   markdownOutput (clear_all s) = markdownOutput initial_state \<and>
   error (clear_all s) = error initial_state \<and>
   copyButtonText (clear_all s) = copyButtonText initial_state \<and>
   showPreview (clear_all s) = showPreview initial_state \<and>
   isLoading (clear_all s) = isLoading s"
  by (simp add: clear_all_def initial_state_def copy_label_def)

theorem clear_all_resets_witness:
  "clear_all sample_state = initial_state"
  using clear_all_resets [of sample_state]
  by (simp add: clear_all_def sample_state_def initial_state_def)

text \<open>
  C8. The preview toggle negates \<open>showPreview\<close>, so that two applications give
  \<open>showPreview\<close> its first value back, and neither application changes
  \<open>markdownOutput\<close>.
\<close>

theorem toggle_preview_involution:
  "showPreview (toggle_preview (toggle_preview s)) = showPreview s \<and>
   markdownOutput (toggle_preview s) = markdownOutput s \<and>
   markdownOutput (toggle_preview (toggle_preview s)) = markdownOutput s \<and>
   showPreview (toggle_preview s) = (\<not> showPreview s)"
  by (simp add: toggle_preview_def)

theorem toggle_preview_involution_witness:
  "showPreview (toggle_preview sample_state) = False \<and>
   showPreview (toggle_preview (toggle_preview sample_state)) = True \<and>
   markdownOutput (toggle_preview (toggle_preview sample_state)) = js ''# Old''"
  using toggle_preview_involution [of sample_state]
  by (simp add: sample_state_def)

text \<open>
  C9, at a failure on which the code misses it. \<open>document.execCommand("copy")\<close> reports
  a copy that did not happen by returning \<open>false\<close>. The handler drops the returned value:
  with \<open>markdownOutput\<close> not empty and \<open>false\<close> returned, it sets \<open>copyButtonText\<close> to
  \<open>Copied!\<close>, starts the timer and leaves \<open>error\<close> as it was, where the clipboard message
  is due and the label should stay. Only a raised exception is reported
  (\<open>copy_threw_sets_error\<close>).
\<close>

theorem copy_returned_false_reports_success:
  assumes "markdownOutput s \<noteq> []"
  shows "copyToClipboard (Returned False) s =
           (s\<lparr>copyButtonText := js ''Copied!''\<rparr>,
            [CreateTextarea (markdownOutput s), AppendChild, SelectText, ExecCommandCopy,
             SetTimeout 2000, RemoveChild]) \<and>
         error (fst (copyToClipboard (Returned False) s)) = error s \<and>
         copyButtonText (fst (copyToClipboard (Returned False) s)) = js ''Copied!''"
  using assms by (simp add: copyToClipboard_def)

theorem copy_returned_false_reports_success_witness:
  "markdownOutput (initial_state\<lparr>markdownOutput := js ''# Title''\<rparr>) \<noteq> [] \<and>
   error (fst (copyToClipboard (Returned False) (initial_state\<lparr>markdownOutput := js ''# Title''\<rparr>))) = [] \<and>
   error (fst (copyToClipboard (Returned False) (initial_state\<lparr>markdownOutput := js ''# Title''\<rparr>)))
     \<noteq> js ''Failed to copy text to clipboard.'' \<and>
   copyButtonText (initial_state\<lparr>markdownOutput := js ''# Title''\<rparr>) = js ''Copy Markdown'' \<and>
   copyButtonText (fst (copyToClipboard (Returned False)
     (initial_state\<lparr>markdownOutput := js ''# Title''\<rparr>))) = js ''Copied!''"
proof -
  have a: "markdownOutput (initial_state\<lparr>markdownOutput := js ''# Title''\<rparr>) \<noteq> []"
    by (simp add: js_def)
  show ?thesis
    using copy_returned_false_reports_success [OF a] a
    by (simp add: initial_state_def copy_label_def js_def)
qed

text \<open>
  C10. When \<open>markdownOutput\<close> is empty, \<open>copyToClipboard\<close> returns the state as it was,
  every field unchanged, and has no effect at all: no textarea, no \<open>execCommand\<close>, no
  timer.
\<close>

theorem copy_empty_is_noop:
  assumes "markdownOutput s = []"
  shows "copyToClipboard exec s = (s, [])"
  using assms by (simp add: copyToClipboard_def)

theorem copy_empty_is_noop_witness:
  "markdownOutput initial_state = [] \<and>
   copyToClipboard (Returned True) initial_state = (initial_state, []) \<and>
   copyToClipboard Threw initial_state = (initial_state, [])"
proof -
  have a: "markdownOutput initial_state = []"
    by (simp add: initial_state_def)
  show ?thesis
    using copy_empty_is_noop [OF a, of "Returned True"] copy_empty_is_noop [OF a, of Threw] a
    by simp
qed

end
